theory Spec2Isabelle
  imports
    Complex_Main
    "HOL-Library.AList"
    "HOL-Library.Char_ord"
    "HOL-Library.List_Lexorder"
begin

section \<open>Python values, dictionaries and exceptions\<close>

text \<open>
  The module \<^verbatim>\<open>facebook.py\<close> is Python 2 code (\<^verbatim>\<open>cgi.parse_qs\<close>, \<^verbatim>\<open>hashlib.md5\<close> applied
  to a \<^verbatim>\<open>str\<close>): a \<^verbatim>\<open>str\<close> is a byte string, modelled by \<^typ>\<open>string\<close>, whose characters are
  bytes.

  A dictionary is an association list with pairwise different keys; storing under a key
  (\<^verbatim>\<open>d[k] = v\<close>) is \<^const>\<open>AList.update\<close>, which replaces the value of a key that is there and
  appends the pair otherwise; \<^verbatim>\<open>k in d\<close> is membership in the keys, \<^verbatim>\<open>d.get(k)\<close> is
  \<^const>\<open>map_of\<close>.

  The values that travel through keyword arguments, request parameters and decoded JSON
  bodies are dynamically typed; \<open>pyval\<close> has the shapes a JSON decoder produces. A float is
  represented by the number it denotes.
\<close>

type_synonym 'v dict = "(string \<times> 'v) list"

datatype pyval =
    PNone
  | PBool bool
  | PInt int
  | PFloat real
  | PStr string
  | PList "pyval list"
  | PDict "(string \<times> pyval) list"

text \<open>The exceptions the modelled code can raise.\<close>

datatype error =
    KeyError string
  | ValueError
  | TypeError
  | AttributeError
  | AssertionError string
  | GraphAPIError pyval pyval
  | RequestException

definition keys :: "'v dict \<Rightarrow> string list" where
  "keys d = map fst d"

text \<open>Truth value testing (\<^verbatim>\<open>if x:\<close>, \<^verbatim>\<open>x and y\<close>, \<^verbatim>\<open>x or y\<close>).\<close>

fun truthy :: "pyval \<Rightarrow> bool" where
  "truthy PNone = False"
| "truthy (PBool b) = b"
| "truthy (PInt i) = (i \<noteq> 0)"
| "truthy (PFloat r) = (r \<noteq> 0)"
| "truthy (PStr s) = (s \<noteq> [])"
| "truthy (PList xs) = (xs \<noteq> [])"
| "truthy (PDict d) = (d \<noteq> [])"

section \<open>Strings: the library functions the cookie parser calls\<close>

text \<open>\<^verbatim>\<open>s.strip(chars)\<close>: drops every leading and every trailing character that is in \<open>chars\<close>.\<close>

definition strip :: "string \<Rightarrow> string \<Rightarrow> string" where
  "strip chars s =
     rev (dropWhile (\<lambda>c. c \<in> set chars) (rev (dropWhile (\<lambda>c. c \<in> set chars) s)))"

text \<open>\<^verbatim>\<open>s.split(sep)\<close> for a one-character separator: never empty, \<^verbatim>\<open>''.split('&') == ['']\<close>.\<close>

fun split :: "char \<Rightarrow> string \<Rightarrow> string list" where
  "split sep [] = [[]]"
| "split sep (c # cs) =
     (if c = sep then [] # split sep cs
      else (case split sep cs of [] \<Rightarrow> [[c]] | w # ws \<Rightarrow> (c # w) # ws))"

text \<open>\<^verbatim>\<open>s.split(sep, 1)\<close>: splits at the first separator only.\<close>

definition split1 :: "char \<Rightarrow> string \<Rightarrow> string list" where
  "split1 sep s =
     (if sep \<in> set s
      then [takeWhile (\<lambda>c. c \<noteq> sep) s, tl (dropWhile (\<lambda>c. c \<noteq> sep) s)]
      else [s])"

text \<open>\<^verbatim>\<open>s.replace('+', ' ')\<close>.\<close>

definition replace_plus :: "string \<Rightarrow> string" where
  "replace_plus s = map (\<lambda>c. if c = CHR ''+'' then CHR '' '' else c) s"

definition is_hexdig :: "char \<Rightarrow> bool" where
  "is_hexdig c = (c \<in> set ''0123456789ABCDEFabcdef'')"

definition hexval :: "char \<Rightarrow> nat" where
  "hexval c =
     (if c \<in> set ''0123456789'' then of_char c - 48
      else if c \<in> set ''ABCDEF'' then of_char c - 55
      else of_char c - 87)"

text \<open>
  \<^verbatim>\<open>urllib.unquote\<close> on a byte string: \<^verbatim>\<open>%XY\<close> with two hexadecimal digits is replaced by
  the byte \<^verbatim>\<open>chr(int('XY', 16))\<close>; a \<^verbatim>\<open>%\<close> that such digits do not follow stays.
\<close>

fun unquote :: "string \<Rightarrow> string" where
  "unquote (c # a # b # rest) =
     (if c = CHR ''%'' \<and> is_hexdig a \<and> is_hexdig b
      then char_of (16 * hexval a + hexval b) # unquote rest
      else c # unquote (a # b # rest))"
| "unquote cs = cs"

text \<open>
  \<^verbatim>\<open>urlparse.parse_qsl(qs)\<close> with its defaults \<^verbatim>\<open>keep_blank_values=0\<close> and
  \<^verbatim>\<open>strict_parsing=0\<close> (\<^verbatim>\<open>cgi.parse_qs\<close> forwards to \<^verbatim>\<open>urlparse.parse_qs\<close>, which collects
  the pairs of \<^verbatim>\<open>parse_qsl\<close>): the string is cut at every \<^verbatim>\<open>&\<close> and every \<^verbatim>\<open>;\<close>; an empty
  field, a field without \<^verbatim>\<open>=\<close> and a field with an empty value are skipped; name and value
  are decoded.
\<close>

fun parse_fields :: "string list \<Rightarrow> (string \<times> string) list" where
  "parse_fields [] = []"
| "parse_fields (name_value # rest) =
     (if name_value = [] then parse_fields rest
      else (case split1 CHR ''='' name_value of
              [n, v] \<Rightarrow>
                (if v \<noteq> []
                 then (unquote (replace_plus n), unquote (replace_plus v)) # parse_fields rest
                 else parse_fields rest)
            | _ \<Rightarrow> parse_fields rest))"

definition parse_qsl :: "string \<Rightarrow> (string \<times> string) list" where
  "parse_qsl qs = parse_fields (concat (map (split CHR '';'') (split CHR ''&'' qs)))"

text \<open>
  \<^verbatim>\<open>parse_qs\<close>: a dictionary from each name to the list of its values, in the order of
  their occurrence (\<^verbatim>\<open>dict[name].append(value)\<close> when the name is there,
  \<^verbatim>\<open>dict[name] = [value]\<close> otherwise).
\<close>

definition parse_qs_add :: "string list dict \<Rightarrow> string \<times> string \<Rightarrow> string list dict" where
  "parse_qs_add d nv =
     (case map_of d (fst nv) of
        Some vs \<Rightarrow> AList.update (fst nv) (vs @ [snd nv]) d
      | None \<Rightarrow> AList.update (fst nv) [snd nv] d)"

definition parse_qs :: "string \<Rightarrow> string list dict" where
  "parse_qs qs = foldl parse_qs_add [] (parse_qsl qs)"

text \<open>
  \<^verbatim>\<open>int(s)\<close> on a string, base 10: surrounding white space is ignored, one sign is
  allowed, and at least one digit must follow and nothing else; \<open>None\<close> stands for the
  \<^verbatim>\<open>ValueError\<close> it raises otherwise.
\<close>

definition is_space :: "char \<Rightarrow> bool" where
  "is_space c = (c \<in> set [CHR '' '', CHR 0x09, CHR 0x0A, CHR 0x0B, CHR 0x0C, CHR 0x0D])"

definition is_digit :: "char \<Rightarrow> bool" where
  "is_digit c = (c \<in> set ''0123456789'')"

definition digits_value :: "string \<Rightarrow> int" where
  "digits_value ds = foldl (\<lambda>a c. 10 * a + int (of_char c - 48)) 0 ds"

definition py_int :: "string \<Rightarrow> int option" where
  "py_int s =
     (let t = rev (dropWhile is_space (rev (dropWhile is_space s)));
          neg = (t \<noteq> [] \<and> hd t = CHR ''-'');
          ds = (if t \<noteq> [] \<and> (hd t = CHR ''-'' \<or> hd t = CHR ''+'') then tl t else t)
      in if ds \<noteq> [] \<and> list_all is_digit ds
         then Some (if neg then - digits_value ds else digits_value ds)
         else None)"

section \<open>The signature verifier: \<^verbatim>\<open>get_user_from_cookie\<close>\<close>

text \<open>
  Line 482: the stripped cookie is parsed and every key keeps the last of its values
  (\<^verbatim>\<open>v[-1]\<close>; the lists of \<^const>\<open>parse_qs\<close> are never empty).
\<close>

definition cookie_args :: "string \<Rightarrow> string dict" where
  "cookie_args cookie =
     map (\<lambda>(k, v). (k, last v)) (parse_qs (strip [CHR 0x22] cookie))"

text \<open>
  Lines 483-484: the signed text, \<^verbatim>\<open>k + "=" + args[k]\<close> for the keys in sorted order,
  \<^verbatim>\<open>sig\<close> left out (every \<open>k\<close> is a key of \<open>args\<close>, so the lookup succeeds).
\<close>

definition signing_payload :: "string dict \<Rightarrow> string" where
  "signing_payload args =
     concat (map (\<lambda>k. k @ ''='' @ the (map_of args k))
       (filter (\<lambda>k. k \<noteq> ''sig'') (sort (keys args))))"

text \<open>
  The function itself. Its two inputs from outside the program are parameters:
  \<open>md5_hexdigest\<close> is \<^verbatim>\<open>hashlib.md5(s).hexdigest()\<close> and \<open>now\<close> is the value of
  \<^verbatim>\<open>time.time()\<close>. The result is \<open>Inl\<close> of the exception raised, \<open>Inr None\<close> for \<^verbatim>\<open>None\<close> and
  \<open>Inr (Some args)\<close> for the dictionary returned.
\<close>

definition get_user_from_cookie ::
  "(string \<Rightarrow> string) \<Rightarrow> real \<Rightarrow> (string \<rightharpoonup> string) \<Rightarrow> string \<Rightarrow> string
     \<Rightarrow> error + string dict option" where
  "get_user_from_cookie md5_hexdigest now cookies app_id app_secret =
     (let cookie = (case cookies (''fbs_'' @ app_id) of Some c \<Rightarrow> c | None \<Rightarrow> [])
      in if cookie = [] then Inr None
         else
           (let args = cookie_args cookie;
                payload = signing_payload args;
                sig = md5_hexdigest (payload @ app_secret)
            in case map_of args ''expires'' of
                 None \<Rightarrow> Inl (KeyError ''expires'')
               | Some e \<Rightarrow>
                   (case py_int e of
                      None \<Rightarrow> Inl ValueError
                    | Some expires \<Rightarrow>
                        (if Some sig = map_of args ''sig''
                            \<and> (expires = 0 \<or> now < real_of_int expires)
                         then Inr (Some args)
                         else Inr None))))"

section \<open>The Graph API client\<close>

subsection \<open>Dynamic operations on values\<close>

text \<open>\<^verbatim>\<open>x.get(k)\<close>: only a dictionary has the method; a missing key gives \<^verbatim>\<open>None\<close>.\<close>

fun py_get :: "pyval \<Rightarrow> string \<Rightarrow> error + pyval" where
  "py_get (PDict d) k = Inr (case map_of d k of Some v \<Rightarrow> v | None \<Rightarrow> PNone)"
| "py_get v k = Inl AttributeError"

text \<open>\<^verbatim>\<open>x.get(k, default)\<close>.\<close>

fun py_get_default :: "pyval \<Rightarrow> string \<Rightarrow> pyval \<Rightarrow> error + pyval" where
  "py_get_default (PDict d) k dflt = Inr (case map_of d k of Some v \<Rightarrow> v | None \<Rightarrow> dflt)"
| "py_get_default v k dflt = Inl AttributeError"

text \<open>\<^verbatim>\<open>x[k]\<close> for a string \<open>k\<close>: a dictionary looks the key up, nothing else accepts it.\<close>

fun py_getitem :: "pyval \<Rightarrow> string \<Rightarrow> error + pyval" where
  "py_getitem (PDict d) k = (case map_of d k of Some v \<Rightarrow> Inr v | None \<Rightarrow> Inl (KeyError k))"
| "py_getitem v k = Inl TypeError"

text \<open>The elements a \<^verbatim>\<open>for\<close> loop visits.\<close>

fun py_iter :: "pyval \<Rightarrow> error + pyval list" where
  "py_iter (PList xs) = Inr xs"
| "py_iter (PDict d) = Inr (map (\<lambda>kv. PStr (fst kv)) d)"
| "py_iter (PStr s) = Inr (map (\<lambda>c. PStr [c]) s)"
| "py_iter v = Inl TypeError"

text \<open>
  String formatting of a value (\<^verbatim>\<open>'{id}'.format(id=v)\<close>): a string is inserted as it is;
  what Python prints for any other value is the parameter \<open>repr\<close>.
\<close>

definition py_str :: "(pyval \<Rightarrow> string) \<Rightarrow> pyval \<Rightarrow> string" where
  "py_str repr v = (case v of PStr s \<Rightarrow> s | _ \<Rightarrow> repr v)"

text \<open>Sequencing of computations that may raise.\<close>

definition bind :: "error + 'a \<Rightarrow> ('a \<Rightarrow> error + 'b) \<Rightarrow> error + 'b" where
  "bind m f = (case m of Inl e \<Rightarrow> Inl e | Inr v \<Rightarrow> f v)"

subsection \<open>The client, a request, the network\<close>

text \<open>
  \<^verbatim>\<open>GraphAPI.__init__\<close>: the token and the version are strings or \<^verbatim>\<open>None\<close>; \<open>url\<close> is computed
  from the version as the constructor does.
\<close>

record graph_api =
  access_token :: "string option"
  version :: "string option"
  timeout :: pyval

definition host :: string where
  "host = ''graph.facebook.com/''"

definition url :: "graph_api \<Rightarrow> string" where
  "url self =
     (case version self of
        None \<Rightarrow> ''https://'' @ host @ ''/''
      | Some v \<Rightarrow> if v = [] then ''https://'' @ host @ ''/'' else ''https://'' @ host @ v @ ''/'')"

text \<open>\<^verbatim>\<open>if self.access_token:\<close> and the token as a value.\<close>

definition has_token :: "graph_api \<Rightarrow> bool" where
  "has_token self = (case access_token self of None \<Rightarrow> False | Some t \<Rightarrow> t \<noteq> [])"

definition token_value :: "graph_api \<Rightarrow> pyval" where
  "token_value self = (case access_token self of None \<Rightarrow> PNone | Some t \<Rightarrow> PStr t)"

text \<open>
  What is handed to the HTTP library for one round trip, and what comes back: a response
  with its status code and the value of \<^verbatim>\<open>response.json()\<close> (\<open>None\<close> when the body is not
  JSON and \<^verbatim>\<open>json()\<close> raises \<^verbatim>\<open>ValueError\<close>), or an exception. For a \<^verbatim>\<open>requests.HTTPError\<close>
  \<open>e\<close> the outcome carries the result of \<^verbatim>\<open>_parse_json(e.read())\<close>, which the handler in
  \<^verbatim>\<open>request\<close> evaluates.

  The network is a function of the requests issued so far and the request at hand; every
  function that may issue a request takes the list of requests issued so far and returns
  it extended.
\<close>

record http_request =
  http_method :: string
  http_url :: string
  http_params :: "pyval dict option"
  http_data :: "pyval dict option"
  http_timeout :: pyval

record response =
  status_code :: int
  json :: "pyval option"

datatype outcome =
    Response response
  | Raises_HTTPError "error + pyval"
  | Raises error

type_synonym network = "http_request list \<Rightarrow> http_request \<Rightarrow> outcome"

subsection \<open>\<^verbatim>\<open>GraphAPI.request\<close>\<close>

text \<open>
  Lines 301-307: where the token goes. \<^verbatim>\<open>post_args\<close> is tested for truth, so an empty
  dictionary counts like \<^verbatim>\<open>None\<close> here.
\<close>

definition inject_token ::
  "graph_api \<Rightarrow> pyval dict \<Rightarrow> pyval dict option \<Rightarrow> pyval dict \<times> pyval dict option" where
  "inject_token self args post_args =
     (if has_token self then
        (if post_args \<noteq> None \<and> the post_args \<noteq> []
              \<and> ''access_token'' \<notin> set (keys (the post_args))
         then (args, Some (AList.update ''access_token'' (token_value self) (the post_args)))
         else if ''access_token'' \<notin> set (keys args)
         then (AList.update ''access_token'' (token_value self) args, post_args)
         else (args, post_args))
      else (args, post_args))"

text \<open>Lines 297-316: the request that \<^verbatim>\<open>self.session.request\<close> is called with.\<close>

definition request_descriptor ::
  "graph_api \<Rightarrow> string \<Rightarrow> pyval dict option \<Rightarrow> pyval dict option \<Rightarrow> string option
     \<Rightarrow> http_request" where
  "request_descriptor self path args post_args method =
     (let args1 = (case args of None \<Rightarrow> [] | Some a \<Rightarrow> a);
          method1 = (if post_args \<noteq> None then Some ''POST'' else method);
          injected = inject_token self args1 post_args
      in \<lparr> http_method = (case method1 of None \<Rightarrow> ''GET'' | Some m \<Rightarrow> if m = [] then ''GET'' else m),
           http_url = url self @ path,
           http_params = Some (fst injected),
           http_data = snd injected,
           http_timeout = timeout self \<rparr>)"

text \<open>Lines 326-331: the error object of a decoded body, raised.\<close>

definition raise_graph_error :: "pyval \<Rightarrow> error" where
  "raise_graph_error error_response =
     (case bind (py_get error_response ''type'') (\<lambda>t.
             bind (py_get error_response ''message'') (\<lambda>m. Inr (t, m))) of
        Inl e \<Rightarrow> e
      | Inr tm \<Rightarrow> GraphAPIError (fst tm) (snd tm))"

text \<open>Lines 317-322: the handler of \<^verbatim>\<open>requests.HTTPError\<close>.\<close>

definition http_error_handler :: "error + pyval \<Rightarrow> error" where
  "http_error_handler parsed =
     (case parsed of
        Inl e \<Rightarrow> e
      | Inr body \<Rightarrow>
          (let error_response = (if truthy body then body else PDict []) in
           case bind (py_get_default error_response ''error'' (PDict [])) (\<lambda>e1.
                bind (py_get e1 ''type'') (\<lambda>t.
                bind (py_get_default error_response ''error'' (PDict [])) (\<lambda>e2.
                bind (py_get e2 ''message'') (\<lambda>m. Inr (t, m))))) of
             Inl e \<Rightarrow> e
           | Inr tm \<Rightarrow> GraphAPIError (fst tm) (snd tm)))"

definition request ::
  "network \<Rightarrow> graph_api \<Rightarrow> string \<Rightarrow> pyval dict option \<Rightarrow> pyval dict option \<Rightarrow> string option
     \<Rightarrow> http_request list \<Rightarrow> (error + pyval) \<times> http_request list" where
  "request net self path args post_args method sent =
     (let req = request_descriptor self path args post_args method in
      (case net sent req of
         Raises e \<Rightarrow> Inl e
       | Raises_HTTPError parsed \<Rightarrow> Inl (http_error_handler parsed)
       | Response r \<Rightarrow>
           (case json r of
              None \<Rightarrow> Inl ValueError
            | Some result \<Rightarrow>
                (case py_get result ''error'' of
                   Inl e \<Rightarrow> Inl e
                 | Inr err \<Rightarrow>
                     if truthy err then Inl (raise_graph_error err) else Inr result)),
       sent @ [req]))"

subsection \<open>The write operations\<close>

definition put_object ::
  "network \<Rightarrow> graph_api \<Rightarrow> string \<Rightarrow> string \<Rightarrow> pyval dict
     \<Rightarrow> http_request list \<Rightarrow> (error + pyval) \<times> http_request list" where
  "put_object net self parent_object connection_name data sent =
     (if has_token self
      then request net self (parent_object @ ''/'' @ connection_name) None (Some data)
             (Some ''POST'') sent
      else (Inl (AssertionError ''Write operations require an access token''), sent))"

text \<open>
  \<^verbatim>\<open>put_wall_post\<close> passes \<^verbatim>\<open>message=message, **attachment\<close>: a key \<^verbatim>\<open>message\<close> in the
  attachment makes the call itself a \<^verbatim>\<open>TypeError\<close>.
\<close>

definition put_wall_post ::
  "network \<Rightarrow> graph_api \<Rightarrow> pyval \<Rightarrow> pyval dict \<Rightarrow> string
     \<Rightarrow> http_request list \<Rightarrow> (error + pyval) \<times> http_request list" where
  "put_wall_post net self message attachment profile_id sent =
     (if ''message'' \<in> set (keys attachment) then (Inl TypeError, sent)
      else put_object net self profile_id ''feed'' ((''message'', message) # attachment) sent)"

definition put_comment ::
  "network \<Rightarrow> graph_api \<Rightarrow> string \<Rightarrow> pyval
     \<Rightarrow> http_request list \<Rightarrow> (error + pyval) \<times> http_request list" where
  "put_comment net self object_id message sent =
     put_object net self object_id ''comments'' [(''message'', message)] sent"

definition put_like ::
  "network \<Rightarrow> graph_api \<Rightarrow> string
     \<Rightarrow> http_request list \<Rightarrow> (error + pyval) \<times> http_request list" where
  "put_like net self object_id sent = put_object net self object_id ''likes'' [] sent"

definition delete_object ::
  "network \<Rightarrow> graph_api \<Rightarrow> string
     \<Rightarrow> http_request list \<Rightarrow> (error + pyval) \<times> http_request list" where
  "delete_object net self ident sent = request net self ident None None (Some ''DELETE'') sent"

subsection \<open>\<^verbatim>\<open>get_page_access_token\<close> and \<^verbatim>\<open>put_event\<close>\<close>

text \<open>
  The loop of lines 193-195 over the accounts: the token of the last account whose
  \<^verbatim>\<open>id\<close> equals the page's.
\<close>

fun find_page_token :: "string \<Rightarrow> pyval \<Rightarrow> pyval list \<Rightarrow> error + pyval" where
  "find_page_token page_id page_access_token [] = Inr page_access_token"
| "find_page_token page_id page_access_token (account # rest) =
     (case py_getitem account ''id'' of
        Inl e \<Rightarrow> Inl e
      | Inr i \<Rightarrow>
          if i = PStr page_id
          then (case py_getitem account ''access_token'' of
                  Inl e \<Rightarrow> Inl e
                | Inr t \<Rightarrow> find_page_token page_id t rest)
          else find_page_token page_id page_access_token rest)"

text \<open>
  \<^verbatim>\<open>requests.get\<close> and \<^verbatim>\<open>requests.post\<close> are called outside any \<^verbatim>\<open>try\<close>: whatever they raise
  leaves the method.
\<close>

definition get_page_access_token ::
  "network \<Rightarrow> graph_api \<Rightarrow> string \<Rightarrow> string
     \<Rightarrow> http_request list \<Rightarrow> (error + pyval \<times> pyval) \<times> http_request list" where
  "get_page_access_token net self page_id fb_uid sent =
     (let req = \<lparr> http_method = ''GET'',
                  http_url = url self @ fb_uid @ ''/accounts'',
                  http_params = Some [(''access_token'', token_value self)],
                  http_data = None,
                  http_timeout = PNone \<rparr> in
      (case net sent req of
         Raises e \<Rightarrow> Inl e
       | Raises_HTTPError parsed \<Rightarrow> Inl RequestException
       | Response account_response \<Rightarrow>
           (case json account_response of
              None \<Rightarrow> Inl ValueError
            | Some account_data \<Rightarrow>
                if status_code account_response \<noteq> 200
                then bind (py_get account_data ''error'') (\<lambda>err.
                     bind (py_get err ''message'') (\<lambda>error_message.
                     Inr (PNone, error_message)))
                else bind (py_get account_data ''data'') (\<lambda>accounts.
                     bind (py_iter accounts) (\<lambda>items.
                     bind (find_page_token page_id PNone items) (\<lambda>page_access_token.
                     Inr (page_access_token, PNone))))),
       sent @ [req]))"

text \<open>\<^verbatim>\<open>if id:\<close> for an argument that is a string or \<^verbatim>\<open>None\<close>.\<close>

definition given :: "string option \<Rightarrow> bool" where
  "given x = (case x of None \<Rightarrow> False | Some s \<Rightarrow> s \<noteq> [])"

text \<open>
  Lines 228-251 of \<^verbatim>\<open>put_event\<close>: the picture is posted to the new event; a status other
  than 200 is reported beside the event through the message of the body's error object.
\<close>

definition upload_picture ::
  "(pyval \<Rightarrow> string) \<Rightarrow> network \<Rightarrow> graph_api \<Rightarrow> pyval dict \<Rightarrow> pyval \<Rightarrow> pyval
     \<Rightarrow> http_request list \<Rightarrow> (error + pyval \<times> pyval) \<times> http_request list" where
  "upload_picture repr net self data response page_access_token sent =
     (case bind (case map_of data ''picture'' of
                   None \<Rightarrow> Inl (KeyError ''picture'') | Some p \<Rightarrow> Inr p) (\<lambda>picture.
           bind (py_getitem response ''id'') (\<lambda>event_id.
           Inr \<lparr> http_method = ''POST'',
                 http_url = url self @ py_str repr event_id @ ''/'',
                 http_params = None,
                 http_data = Some [(''cover_url'', picture),
                                   (''access_token'',
                                      if truthy page_access_token then page_access_token
                                      else token_value self)],
                 http_timeout = PNone \<rparr>)) of
        Inl e \<Rightarrow> (Inl e, sent)
      | Inr req \<Rightarrow>
          (case net sent req of
             Raises e \<Rightarrow> Inl e
           | Raises_HTTPError parsed \<Rightarrow> Inl RequestException
           | Response picture_response \<Rightarrow>
               if status_code picture_response \<noteq> 200
               then (case json picture_response of
                       None \<Rightarrow> Inl ValueError
                     | Some json_response \<Rightarrow>
                         bind (py_get json_response ''error'') (\<lambda>err.
                         bind (py_get err ''message'') (\<lambda>error_message.
                         Inr (response, error_message))))
               else Inr (response, PNone),
           sent @ [req]))"

text \<open>
  \<^verbatim>\<open>put_event\<close>. \<^verbatim>\<open>request\<close> may have stored the token in \<^verbatim>\<open>data\<close> (it is the object passed as
  \<^verbatim>\<open>post_args\<close>); the key \<^verbatim>\<open>picture\<close>, the only one read afterwards, is not touched by
  that.
\<close>

definition put_event ::
  "(pyval \<Rightarrow> string) \<Rightarrow> network \<Rightarrow> graph_api \<Rightarrow> string option \<Rightarrow> string option
     \<Rightarrow> string option \<Rightarrow> pyval dict
     \<Rightarrow> http_request list \<Rightarrow> (error + pyval \<times> pyval) \<times> http_request list" where
  "put_event repr net self ident page_id fb_uid data sent =
     (let path = (if given ident then the ident
                  else if given page_id then the page_id @ ''/events''
                  else ''me/events'')
      in case request net self path None (Some data) (Some ''POST'') sent of
           (Inl e, sent1) \<Rightarrow> (Inl e, sent1)
         | (Inr response, sent1) \<Rightarrow>
             if ''picture'' \<in> set (keys data)
                \<and> (case response of PDict d \<Rightarrow> ''id'' \<in> set (keys d) | _ \<Rightarrow> False)
             then
               (if given page_id \<and> given fb_uid
                then (case get_page_access_token net self (the page_id) (the fb_uid) sent1 of
                        (Inl e, sent2) \<Rightarrow> (Inl e, sent2)
                      | (Inr tok_msg, sent2) \<Rightarrow>
                          if truthy (snd tok_msg) then (Inr (response, snd tok_msg), sent2)
                          else upload_picture repr net self data response (fst tok_msg) sent2)
                else upload_picture repr net self data response PNone sent1)
             else (Inr (response, PNone), sent1))"

section \<open>The claims of the specification, as stated there\<close>

text \<open>The values of a key in a list of pairs, in the order of their occurrence.\<close>

definition values_of :: "string \<Rightarrow> (string \<times> string) list \<Rightarrow> string list" where
  "values_of k ps = map snd (filter (\<lambda>p. fst p = k) ps)"

text \<open>
  ``Strip exactly one layer of surrounding quote characters'': a value that begins and ends
  with a quote loses these two characters, any other value is left as it is.
\<close>

definition strip_one_layer :: "string \<Rightarrow> string" where
  "strip_one_layer s =
     (if 2 \<le> length s \<and> hd s = CHR 0x22 \<and> last s = CHR 0x22 then butlast (tl s) else s)"

section \<open>Properties of the cookie parser\<close>

lemma parse_qs_add_distinct:
  "distinct (map fst d) \<Longrightarrow> distinct (map fst (parse_qs_add d nv))"
  by (simp add: parse_qs_add_def distinct_update split: option.split)

lemma foldl_parse_qs_add_distinct:
  "distinct (map fst d) \<Longrightarrow> distinct (map fst (foldl parse_qs_add d ps))"
  by (induction ps arbitrary: d) (simp_all add: parse_qs_add_distinct)

lemma parse_qs_distinct: "distinct (map fst (parse_qs qs))"
  by (simp add: parse_qs_def foldl_parse_qs_add_distinct)

lemma map_of_parse_qs_add:
  "map_of (parse_qs_add d nv) k =
     (if fst nv = k
      then Some ((case map_of d k of None \<Rightarrow> [] | Some ws \<Rightarrow> ws) @ [snd nv])
      else map_of d k)"
  by (simp add: parse_qs_add_def update_conv' split: option.split)

text \<open>The dictionary of \<^const>\<open>parse_qs\<close> holds, for each name, all its values in order.\<close>

lemma map_of_foldl_parse_qs_add:
  "map_of (foldl parse_qs_add d ps) k =
     (case map_of d k of
        None \<Rightarrow> (if values_of k ps = [] then None else Some (values_of k ps))
      | Some ws \<Rightarrow> Some (ws @ values_of k ps))"
proof (induction ps arbitrary: d)
  case Nil
  then show ?case by (simp add: values_of_def split: option.split)
next
  case (Cons p ps)
  show ?case
    by (simp add: Cons.IH map_of_parse_qs_add values_of_def split: option.split)
qed

lemma map_of_parse_qs:
  "map_of (parse_qs qs) k =
     (if values_of k (parse_qsl qs) = [] then None else Some (values_of k (parse_qsl qs)))"
  by (simp add: parse_qs_def map_of_foldl_parse_qs_add)

lemma map_of_last_values:
  "map_of (map (\<lambda>(k, v). (k, last v)) d) k = map_option last (map_of d k)"
  by (induction d) auto

lemma map_of_cookie_args:
  "map_of (cookie_args cookie) k =
     (if values_of k (parse_qsl (strip [CHR 0x22] cookie)) = [] then None
      else Some (last (values_of k (parse_qsl (strip [CHR 0x22] cookie)))))"
  by (simp add: cookie_args_def map_of_last_values map_of_parse_qs)

lemma keys_cookie_args:
  "keys (cookie_args cookie) = keys (parse_qs (strip [CHR 0x22] cookie))"
  by (simp add: cookie_args_def keys_def case_prod_unfold comp_def)

lemma cookie_args_distinct: "distinct (keys (cookie_args cookie))"
  by (simp add: keys_cookie_args) (simp add: keys_def parse_qs_distinct)

text \<open>What \<^const>\<open>strip\<close> removes: copies of the character at both ends, and all of them.\<close>

lemma dropWhile_replicate:
  "\<exists>m. xs = replicate m c @ dropWhile (\<lambda>x. x = c) xs"
proof (induction xs)
  case Nil
  then show ?case by simp
next
  case (Cons x xs)
  then obtain m where m: "xs = replicate m c @ dropWhile (\<lambda>x. x = c) xs" by blast
  show ?case
  proof (cases "x = c")
    case True
    have "x # xs = replicate (Suc m) c @ dropWhile (\<lambda>x. x = c) (x # xs)"
      using m True by simp
    then show ?thesis by blast
  next
    case False
    have "x # xs = replicate 0 c @ dropWhile (\<lambda>x. x = c) (x # xs)"
      using False by simp
    then show ?thesis by blast
  qed
qed

lemma strip_decompose:
  "\<exists>m n. s = replicate m c @ strip [c] s @ replicate n c"
proof -
  obtain m where m: "s = replicate m c @ dropWhile (\<lambda>x. x = c) s"
    using dropWhile_replicate [of s c] by (elim exE)
  obtain n where n: "rev (dropWhile (\<lambda>x. x = c) s)
      = replicate n c @ dropWhile (\<lambda>x. x = c) (rev (dropWhile (\<lambda>x. x = c) s))"
    using dropWhile_replicate [of "rev (dropWhile (\<lambda>x. x = c) s)" c] by (elim exE)
  have "dropWhile (\<lambda>x. x = c) s = strip [c] s @ replicate n c"
    using arg_cong [OF n, of rev] by (simp add: strip_def)
  with m have "s = replicate m c @ strip [c] s @ replicate n c" by simp
  then show ?thesis by blast
qed

lemma strip_ends:
  "strip [c] s = [] \<or> (hd (strip [c] s) \<noteq> c \<and> last (strip [c] s) \<noteq> c)"
proof (cases "strip [c] s = []")
  case True
  then show ?thesis by simp
next
  case False
  let ?d = "dropWhile (\<lambda>x. x = c) s"
  let ?r = "dropWhile (\<lambda>x. x = c) (rev ?d)"
  have r: "?r \<noteq> []" using False by (simp add: strip_def)
  then have h: "hd ?r \<noteq> c" using hd_dropWhile [of "\<lambda>x. x = c" "rev ?d"] by simp
  have l: "last (strip [c] s) \<noteq> c" using h r by (simp add: strip_def last_rev)
  have d: "?d \<noteq> []"
  proof
    assume e: "?d = []"
    have "?r = []" unfolding e by simp
    with r show False by simp
  qed
  then have hd: "hd ?d \<noteq> c" using hd_dropWhile [of "\<lambda>x. x = c" s] by simp
  have "last (rev ?d) \<noteq> c" using hd d by (simp add: last_rev)
  then have "last ?r \<noteq> c" using r
    by (metis (no_types, lifting) dropWhile_eq_Nil_conv last_appendR takeWhile_dropWhile_id)
  then have "hd (strip [c] s) \<noteq> c" using r by (simp add: strip_def hd_rev)
  with l show ?thesis by simp
qed

text \<open>The pairs that enter the signed text.\<close>

lemma signing_pairs:
  fixes args :: "string dict"
  assumes d: "distinct (keys args)"
  shows "set (map (\<lambda>k. (k, the (map_of args k)))
                (filter (\<lambda>k. k \<noteq> ''sig'') (sort (keys args))))
           = {p \<in> set args. fst p \<noteq> ''sig''}"
    (is "set ?ps = ?S")
proof -
  have a: "\<And>k v. (k, v) \<in> set args \<Longrightarrow> map_of args k = Some v"
    using d by (simp add: keys_def)
  have b: "\<And>k. k \<in> set (keys args) \<Longrightarrow> (k, the (map_of args k)) \<in> set args"
    using a by (auto simp: keys_def)
  show ?thesis
  proof (rule set_eqI)
    fix p :: "string \<times> string"
    obtain k v where p: "p = (k, v)" by (cases p)
    show "p \<in> set ?ps \<longleftrightarrow> p \<in> ?S"
    proof
      assume "p \<in> set ?ps"
      then have "k \<in> set (keys args)" and "k \<noteq> ''sig''" and "v = the (map_of args k)"
        using p by auto
      then show "p \<in> ?S" using b p by simp
    next
      assume "p \<in> ?S"
      then have m: "(k, v) \<in> set args" and n: "k \<noteq> ''sig''" using p by simp_all
      have "map_of args k = Some v" using a m by simp
      moreover have "k \<in> set (keys args)" using m by (force simp: keys_def)
      ultimately show "p \<in> set ?ps" using n p by (simp add: image_iff)
    qed
  qed
qed

section \<open>Properties of the Graph API client\<close>

lemma update_absent:
  "k \<notin> set (keys al) \<Longrightarrow> AList.update k v al = al @ [(k, v)]"
  by (induction al) (auto simp: keys_def)

lemma map_of_Some_key: "map_of al k = Some v \<Longrightarrow> k \<in> set (keys al)"
  by (auto simp: keys_def dest: map_of_SomeD intro: rev_image_eqI)

text \<open>A decoded object without an \<^verbatim>\<open>error\<close> key is returned as it is.\<close>

lemma request_object_without_error:
  assumes "net sent (request_descriptor self path args post_args method) = Response r"
    and "json r = Some (PDict body)" and "map_of body ''error'' = None"
  shows "fst (request net self path args post_args method sent) = Inr (PDict body)"
  using assms by (simp add: request_def)

text \<open>
  \<^verbatim>\<open>put_object\<close> and the three operations built on it stop at the assertion, with no request
  issued, when the client has no token.
\<close>

lemma put_object_without_token:
  "\<not> has_token self \<Longrightarrow>
     put_object net self parent_object connection_name data sent
       = (Inl (AssertionError ''Write operations require an access token''), sent)"
  by (simp add: put_object_def)

lemma put_comment_without_token:
  "\<not> has_token self \<Longrightarrow>
     put_comment net self object_id message sent
       = (Inl (AssertionError ''Write operations require an access token''), sent)"
  by (simp add: put_comment_def put_object_without_token)

lemma put_like_without_token:
  "\<not> has_token self \<Longrightarrow>
     put_like net self object_id sent
       = (Inl (AssertionError ''Write operations require an access token''), sent)"
  by (simp add: put_like_def put_object_without_token)

lemma put_wall_post_without_token:
  "\<not> has_token self \<Longrightarrow>
     snd (put_wall_post net self message attachment profile_id sent) = sent
     \<and> (\<exists>e. fst (put_wall_post net self message attachment profile_id sent) = Inl e)"
  by (simp add: put_wall_post_def put_object_without_token)

text \<open>
  The picture upload answered with a status other than 200 and a body that carries an
  error object: the event is returned beside the message.
\<close>

lemma upload_picture_reported:
  assumes "map_of data ''picture'' = Some picture"
    and "response = PDict d" and "map_of d ''id'' = Some event_id"
    and "net sent \<lparr> http_method = ''POST'',
                    http_url = url self @ py_str repr event_id @ ''/'',
                    http_params = None,
                    http_data = Some [(''cover_url'', picture),
                                      (''access_token'',
                                         if truthy tok then tok else token_value self)],
                    http_timeout = PNone \<rparr> = Response r"
    and "status_code r \<noteq> 200" and "json r = Some (PDict body)"
    and "map_of body ''error'' = Some (PDict e)"
  shows "fst (upload_picture repr net self data response tok sent)
           = Inr (response, case map_of e ''message'' of Some m \<Rightarrow> m | None \<Rightarrow> PNone)"
  using assms by (simp add: upload_picture_def bind_def)

section \<open>The signature verifier: claims C1, C7, C8, C9, C10\<close>

text \<open>
  Claim C1, as amended. For a cookie mapping whose cookie \<^verbatim>\<open>fbs_<app_id>\<close> is not empty
  and whose parsed payload has an \<^verbatim>\<open>expires\<close> value that \<^verbatim>\<open>int\<close> accepts,
  \<^verbatim>\<open>get_user_from_cookie\<close> returns the parsed payload exactly when the digest of the
  signed text followed by the application secret equals the payload's \<^verbatim>\<open>sig\<close> and the
  expiry is zero or lies after the current time; otherwise it returns \<^verbatim>\<open>None\<close>.
\<close>

theorem cookie_verdict:
  assumes "cookies (''fbs_'' @ app_id) = Some cookie" and "cookie \<noteq> []"
    and "map_of (cookie_args cookie) ''expires'' = Some e" and "py_int e = Some expires"
  shows "get_user_from_cookie md5_hexdigest now cookies app_id app_secret =
           (if Some (md5_hexdigest (signing_payload (cookie_args cookie) @ app_secret))
                 = map_of (cookie_args cookie) ''sig''
               \<and> (expires = 0 \<or> now < real_of_int expires)
            then Inr (Some (cookie_args cookie)) else Inr None)"
  using assms by (simp add: get_user_from_cookie_def Let_def)

text \<open>
  An instance: a payload signed with the digest that the stand-in digest function gives,
  with \<^verbatim>\<open>expires=0\<close>, is returned whatever the time.
\<close>

theorem cookie_verdict_witness:
  "get_user_from_cookie (\<lambda>s. ''d0'') 1700000000
     [''fbs_app'' \<mapsto> ''uid=7&expires=0&sig=d0''] ''app'' ''secret''
     = Inr (Some [(''uid'', ''7''), (''expires'', ''0''), (''sig'', ''d0'')])"
proof -
  have a: "map_of (cookie_args ''uid=7&expires=0&sig=d0'') ''expires'' = Some ''0''"
    by code_simp
  have b: "py_int ''0'' = Some 0" by code_simp
  have c: "cookie_args ''uid=7&expires=0&sig=d0''
             = [(''uid'', ''7''), (''expires'', ''0''), (''sig'', ''d0'')]"
    by code_simp
  show ?thesis
    using cookie_verdict [OF _ _ a b,
        where cookies = "[''fbs_app'' \<mapsto> ''uid=7&expires=0&sig=d0'']"
        and app_id = "''app''" and ?md5_hexdigest = "\<lambda>s. ''d0''"
        and app_secret = "''secret''" and now = 1700000000]
    by (simp add: c)
qed

text \<open>
  Claim C1 as stated fails: ``in every other case the result is \<^verbatim>\<open>None\<close>'' does not hold
  for a payload without \<^verbatim>\<open>expires\<close> (here with a wrong signature as well), where the
  lookup \<^verbatim>\<open>args["expires"]\<close> raises.
\<close>

theorem cookie_verdict_counterexample:
  "get_user_from_cookie (\<lambda>s. ''d0'') 0 [''fbs_app'' \<mapsto> ''uid=7&sig=ff''] ''app'' ''secret''
     = Inl (KeyError ''expires'')"
  by code_simp

text \<open>
  Claim C7. For every parsed cookie payload the signed text is the concatenation of
  \<^verbatim>\<open>key=value\<close>, without separator, over the pairs of the payload other than \<^verbatim>\<open>sig\<close>, in
  the lexicographic order of their keys; for the cookie \<^verbatim>\<open>b=2&a=1&sig=X\<close> it is
  \<^verbatim>\<open>a=1b=2\<close>.
\<close>

theorem signing_payload_canonical:
  "(\<exists>ps. set ps = {p \<in> set (cookie_args cookie). fst p \<noteq> ''sig''}
        \<and> sorted (map fst ps) \<and> distinct (map fst ps)
        \<and> signing_payload (cookie_args cookie) = concat (map (\<lambda>(k, v). k @ ''='' @ v) ps))
   \<and> cookie_args ''b=2&a=1&sig=X'' = [(''b'', ''2''), (''a'', ''1''), (''sig'', ''X'')]
   \<and> signing_payload (cookie_args ''b=2&a=1&sig=X'') = ''a=1b=2''"
proof -
  let ?args = "cookie_args cookie"
  let ?ks = "filter (\<lambda>k. k \<noteq> ''sig'') (sort (keys ?args))"
  let ?ps = "map (\<lambda>k. (k, the (map_of ?args k))) ?ks"
  have fst: "map fst ?ps = ?ks" by (simp add: comp_def)
  have s: "set ?ps = {p \<in> set ?args. fst p \<noteq> ''sig''}"
    by (rule signing_pairs [OF cookie_args_distinct])
  have so: "sorted (map fst ?ps)" unfolding fst by (rule sorted_wrt_filter) simp
  have di: "distinct (map fst ?ps)" unfolding fst by (simp add: cookie_args_distinct)
  have eq: "signing_payload ?args = concat (map (\<lambda>(k, v). k @ ''='' @ v) ?ps)"
    by (simp add: signing_payload_def comp_def)
  have ex: "\<exists>ps. set ps = {p \<in> set ?args. fst p \<noteq> ''sig''}
        \<and> sorted (map fst ps) \<and> distinct (map fst ps)
        \<and> signing_payload ?args = concat (map (\<lambda>(k, v). k @ ''='' @ v) ps)"
    using s so di eq by blast
  have c1: "cookie_args ''b=2&a=1&sig=X'' = [(''b'', ''2''), (''a'', ''1''), (''sig'', ''X'')]"
    by code_simp
  have c2: "signing_payload (cookie_args ''b=2&a=1&sig=X'') = ''a=1b=2''"
    by code_simp
  show ?thesis using ex c1 c2 by blast
qed

text \<open>
  Claim C8, as amended. \<^verbatim>\<open>get_user_from_cookie\<close> strips every leading and every trailing
  quote character of the cookie value (all of them, paired or not), parses what remains
  as a query string, and keeps for each key the last of its values: the payload it
  returns is the one so parsed, with one entry per key.
\<close>

theorem cookie_args_strip_last_value:
  "(\<exists>m n. cookie = replicate m (CHR 0x22) @ strip [CHR 0x22] cookie @ replicate n (CHR 0x22))
   \<and> (strip [CHR 0x22] cookie = []
        \<or> (hd (strip [CHR 0x22] cookie) \<noteq> CHR 0x22 \<and> last (strip [CHR 0x22] cookie) \<noteq> CHR 0x22))
   \<and> map_of (cookie_args cookie) k
        = (if values_of k (parse_qsl (strip [CHR 0x22] cookie)) = [] then None
           else Some (last (values_of k (parse_qsl (strip [CHR 0x22] cookie)))))
   \<and> distinct (keys (cookie_args cookie))
   \<and> (cookies (''fbs_'' @ app_id) = Some cookie
        \<and> get_user_from_cookie md5_hexdigest now cookies app_id app_secret = Inr (Some args)
        \<longrightarrow> args = cookie_args cookie)"
proof -
  have link: "cookies (''fbs_'' @ app_id) = Some cookie
        \<and> get_user_from_cookie md5_hexdigest now cookies app_id app_secret = Inr (Some args)
        \<longrightarrow> args = cookie_args cookie"
    by (auto simp: get_user_from_cookie_def Let_def split: if_splits option.splits)
  show ?thesis
    using strip_decompose [of cookie "CHR 0x22"] strip_ends [of "CHR 0x22" cookie]
      map_of_cookie_args [of cookie k] cookie_args_distinct [of cookie] link
    by blast
qed

theorem cookie_args_strip_last_value_witness:
  "get_user_from_cookie (\<lambda>s. ''d1'') 0
     [''fbs_app'' \<mapsto> CHR 0x22 # CHR 0x22 # ''uid=1&uid=2&expires=0&sig=d1'' @ [CHR 0x22]]
     ''app'' ''secret''
     = Inr (Some [(''uid'', ''2''), (''expires'', ''0''), (''sig'', ''d1'')])
   \<and> [(''uid'', ''2''), (''expires'', ''0''), (''sig'', ''d1'')]
     = cookie_args (CHR 0x22 # CHR 0x22 # ''uid=1&uid=2&expires=0&sig=d1'' @ [CHR 0x22])"
proof -
  let ?c = "CHR 0x22 # CHR 0x22 # ''uid=1&uid=2&expires=0&sig=d1'' @ [CHR 0x22]"
  have r: "get_user_from_cookie (\<lambda>s. ''d1'') 0 [''fbs_app'' \<mapsto> ?c] ''app'' ''secret''
             = Inr (Some [(''uid'', ''2''), (''expires'', ''0''), (''sig'', ''d1'')])"
    by code_simp
  have g: "[''fbs_app'' \<mapsto> ?c] (''fbs_'' @ ''app'') = Some ?c" by simp
  show ?thesis
    using cookie_args_strip_last_value [where cookie = ?c and cookies = "[''fbs_app'' \<mapsto> ?c]"
        and app_id = "''app''" and ?md5_hexdigest = "\<lambda>s. ''d1''" and now = 0
        and app_secret = "''secret''"
        and args = "[(''uid'', ''2''), (''expires'', ''0''), (''sig'', ''d1'')]"] r g
    by blast
qed

text \<open>
  Claim C8 as stated fails: with exactly one layer of quotes removed, the cookie
  \<^verbatim>\<open>""uid=1&expires=0&sig=d1""\<close> would have the keys \<^verbatim>\<open>"uid\<close> and \<^verbatim>\<open>sig\<close> with the value
  \<^verbatim>\<open>d1"\<close>; the payload the function returns has lost both layers.
\<close>

theorem strip_one_layer_counterexample:
  "get_user_from_cookie (\<lambda>s. ''d1'') 0
     [''fbs_app'' \<mapsto> CHR 0x22 # CHR 0x22 # ''uid=1&expires=0&sig=d1'' @ [CHR 0x22, CHR 0x22]]
     ''app'' ''secret''
     = Inr (Some [(''uid'', ''1''), (''expires'', ''0''), (''sig'', ''d1'')])
   \<and> map (\<lambda>(k, v). (k, last v))
       (parse_qs (strip_one_layer
          (CHR 0x22 # CHR 0x22 # ''uid=1&expires=0&sig=d1'' @ [CHR 0x22, CHR 0x22])))
     = [(CHR 0x22 # ''uid'', ''1''), (''expires'', ''0''), (''sig'', ''d1'' @ [CHR 0x22])]"
  by code_simp

text \<open>
  Claim C9. For every parsed cookie payload whose \<^verbatim>\<open>expires\<close> value is not an integer
  literal (\<^verbatim>\<open>int\<close> rejects it), \<^verbatim>\<open>get_user_from_cookie\<close> raises \<^verbatim>\<open>ValueError\<close>; no default
  expiry is assumed and nothing is returned, whatever the signature.
\<close>

theorem non_integer_expires_raises:
  assumes "cookies (''fbs_'' @ app_id) = Some cookie" and "cookie \<noteq> []"
    and "map_of (cookie_args cookie) ''expires'' = Some e" and "py_int e = None"
  shows "get_user_from_cookie md5_hexdigest now cookies app_id app_secret = Inl ValueError"
  using assms by (simp add: get_user_from_cookie_def Let_def)

theorem non_integer_expires_raises_witness:
  "map_of (cookie_args ''uid=7&expires=soon&sig=d2'') ''expires'' = Some ''soon''
   \<and> py_int ''soon'' = None
   \<and> get_user_from_cookie (\<lambda>s. ''d2'') 0
        [''fbs_app'' \<mapsto> ''uid=7&expires=soon&sig=d2''] ''app'' ''secret'' = Inl ValueError"
proof -
  have a: "map_of (cookie_args ''uid=7&expires=soon&sig=d2'') ''expires'' = Some ''soon''"
    by code_simp
  have b: "py_int ''soon'' = None" by code_simp
  show ?thesis
    using non_integer_expires_raises [OF _ _ a b,
        where cookies = "[''fbs_app'' \<mapsto> ''uid=7&expires=soon&sig=d2'']"
        and app_id = "''app''" and ?md5_hexdigest = "\<lambda>s. ''d2''"
        and app_secret = "''secret''" and now = 0] a b
    by simp
qed

text \<open>
  Claim C10. For every cookie value that is parsed (a cookie that is not empty) to a
  payload without the key \<^verbatim>\<open>expires\<close>, \<^verbatim>\<open>get_user_from_cookie\<close> raises \<^verbatim>\<open>KeyError\<close>, also
  when the signature over the keys that are there is the right one.
\<close>

theorem missing_expires_raises:
  assumes "cookies (''fbs_'' @ app_id) = Some cookie" and "cookie \<noteq> []"
    and "''expires'' \<notin> set (keys (cookie_args cookie))"
  shows "get_user_from_cookie md5_hexdigest now cookies app_id app_secret
           = Inl (KeyError ''expires'')"
proof -
  have "map_of (cookie_args cookie) ''expires'' = None"
    using assms(3) by (simp add: map_of_eq_None_iff keys_def)
  then show ?thesis using assms(1,2) by (simp add: get_user_from_cookie_def Let_def)
qed

theorem missing_expires_raises_witness:
  "''expires'' \<notin> set (keys (cookie_args ''uid=9&sig=d3''))
   \<and> Some ((\<lambda>s. ''d3'') (signing_payload (cookie_args ''uid=9&sig=d3'') @ ''secret''))
       = map_of (cookie_args ''uid=9&sig=d3'') ''sig''
   \<and> get_user_from_cookie (\<lambda>s. ''d3'') 0 [''fbs_app'' \<mapsto> ''uid=9&sig=d3''] ''app'' ''secret''
       = Inl (KeyError ''expires'')"
proof -
  have a: "''expires'' \<notin> set (keys (cookie_args ''uid=9&sig=d3''))" by code_simp
  have b: "map_of (cookie_args ''uid=9&sig=d3'') ''sig'' = Some ''d3''" by code_simp
  show ?thesis
    using missing_expires_raises [OF _ _ a,
        where cookies = "[''fbs_app'' \<mapsto> ''uid=9&sig=d3'']"
        and app_id = "''app''" and ?md5_hexdigest = "\<lambda>s. ''d3''"
        and app_secret = "''secret''" and now = 0] a b
    by simp
qed

section \<open>The request dispatcher and the write operations: claims C2 to C6\<close>

text \<open>
  Claim C2, as amended. When \<^verbatim>\<open>GraphAPI.request\<close> receives a response (of any status, 2xx
  included) whose decoded body is an object with an \<^verbatim>\<open>error\<close> object that is not empty,
  it raises \<^verbatim>\<open>GraphAPIError\<close> with the \<^verbatim>\<open>type\<close> and \<^verbatim>\<open>message\<close> of that object (\<^verbatim>\<open>None\<close> for a
  field that is missing) and does not return the body.
\<close>

theorem request_raises_error_object:
  assumes "net sent (request_descriptor self path args post_args method) = Response r"
    and "json r = Some (PDict body)"
    and "map_of body ''error'' = Some (PDict e)" and "e \<noteq> []"
  shows "fst (request net self path args post_args method sent)
           = Inl (GraphAPIError (case map_of e ''type'' of Some t \<Rightarrow> t | None \<Rightarrow> PNone)
                                (case map_of e ''message'' of Some m \<Rightarrow> m | None \<Rightarrow> PNone))"
  using assms by (simp add: request_def raise_graph_error_def bind_def)

text \<open>The example of the specification: the body \<^verbatim>\<open>{"error": {"type": "T", "message": "M"}}\<close>.\<close>

theorem request_raises_error_object_witness:
  "fst (request
      (\<lambda>sent req. Response \<lparr> status_code = 200,
         json = Some (PDict [(''error'', PDict [(''type'', PStr ''T''), (''message'', PStr ''M'')])]) \<rparr>)
      \<lparr> access_token = Some ''tok'', version = None, timeout = PNone \<rparr> ''me'' None None None [])
   = Inl (GraphAPIError (PStr ''T'') (PStr ''M''))"
proof -
  let ?e = "[(''type'', PStr ''T''), (''message'', PStr ''M'')]"
  let ?r = "\<lparr> status_code = 200, json = Some (PDict [(''error'', PDict ?e)]) \<rparr>"
  have a: "json ?r = Some (PDict [(''error'', PDict ?e)])" by simp
  have b: "map_of [(''error'', PDict ?e)] ''error'' = Some (PDict ?e)" by simp
  have c: "?e \<noteq> []" by simp
  let ?self = "\<lparr> access_token = Some ''tok'', version = None, timeout = PNone \<rparr>"
  have h: "(\<lambda>sent req. Response ?r) [] (request_descriptor ?self ''me'' None None None)
             = Response ?r"
    by simp
  show ?thesis
    using request_raises_error_object [OF h a b c] by simp
qed

text \<open>
  Claim C2 as stated fails: the body \<^verbatim>\<open>{"error": {}}\<close> contains an error object, but the
  test \<^verbatim>\<open>if result.get('error')\<close> is one of truth and the empty object is false, so the
  body is returned as data.
\<close>

theorem request_empty_error_object_counterexample:
  "request
     (\<lambda>sent req. Response \<lparr> status_code = 200, json = Some (PDict [(''error'', PDict [])]) \<rparr>)
     \<lparr> access_token = None, version = None, timeout = PNone \<rparr> ''me'' None None None []
   = (Inr (PDict [(''error'', PDict [])]),
      [\<lparr> http_method = ''GET'', http_url = ''https://graph.facebook.com//me'',
          http_params = Some [], http_data = None, http_timeout = PNone \<rparr>])"
  by (simp add: request_def request_descriptor_def inject_token_def has_token_def url_def host_def)

text \<open>
  Claim C3 (a 2xx body that is a plain array is returned unchanged) against the code:
  \<^verbatim>\<open>result.get('error')\<close> is called on whatever was decoded, and a list has no \<^verbatim>\<open>get\<close>, so
  \<^verbatim>\<open>request\<close> raises \<^verbatim>\<open>AttributeError\<close> where \<^verbatim>\<open>multipart_request\<close> and \<^verbatim>\<open>FQLAPI.request\<close>
  test \<^verbatim>\<open>isinstance(response, dict)\<close> first.
\<close>

theorem request_array_body_raises:
  "request
     (\<lambda>sent req. Response \<lparr> status_code = 200,
        json = Some (PList [PDict [(''id'', PStr ''1'')]]) \<rparr>)
     \<lparr> access_token = Some ''tok'', version = None, timeout = PNone \<rparr>
     ''me/friends'' None None None []
   = (Inl AttributeError,
      [\<lparr> http_method = ''GET'', http_url = ''https://graph.facebook.com//me/friends'',
          http_params = Some [(''access_token'', PStr ''tok'')], http_data = None,
          http_timeout = PNone \<rparr>])"
  by (simp add: request_def request_descriptor_def inject_token_def has_token_def url_def host_def
        token_value_def keys_def)

text \<open>
  Claim C4 (every write operation fails before any request when the client has no
  token) against the code: \<^verbatim>\<open>delete_object\<close> and \<^verbatim>\<open>put_event\<close> call \<^verbatim>\<open>request\<close> without the
  assertion of \<^verbatim>\<open>put_object\<close>; on a client without token each of them issues its request
  and returns what the service answers.
\<close>

theorem write_without_token_reaches_network:
  "delete_object
     (\<lambda>sent req. Response \<lparr> status_code = 200, json = Some (PDict [(''success'', PBool True)]) \<rparr>)
     \<lparr> access_token = None, version = None, timeout = PNone \<rparr> ''123'' []
   = (Inr (PDict [(''success'', PBool True)]),
      [\<lparr> http_method = ''DELETE'', http_url = ''https://graph.facebook.com//123'',
          http_params = Some [], http_data = None, http_timeout = PNone \<rparr>])
  \<and> put_event (\<lambda>v. [])
     (\<lambda>sent req. Response \<lparr> status_code = 200, json = Some (PDict [(''id'', PStr ''42'')]) \<rparr>)
     \<lparr> access_token = None, version = None, timeout = PNone \<rparr> None None None
     [(''name'', PStr ''party'')] []
   = (Inr (PDict [(''id'', PStr ''42'')], PNone),
      [\<lparr> http_method = ''POST'', http_url = ''https://graph.facebook.com//me/events'',
          http_params = Some [], http_data = Some [(''name'', PStr ''party'')],
          http_timeout = PNone \<rparr>])"
  by (simp add: delete_object_def put_event_def request_def request_descriptor_def
        inject_token_def has_token_def url_def host_def given_def keys_def)

text \<open>
  Claim C5. On a client with a token (a string that is not empty) \<^verbatim>\<open>GraphAPI.request\<close>
  issues one request, in which the token has been added to the POST body when that is
  given, not empty and without an \<^verbatim>\<open>access_token\<close> key, and to the query parameters
  otherwise, unless these have the key already; a mapping that has the key keeps its
  value.
\<close>

theorem request_token_injection:
  assumes "access_token self = Some tok" and "tok \<noteq> []"
  shows "snd (request net self path args post_args method sent)
           = sent @ [request_descriptor self path args post_args method]
       \<and> http_data (request_descriptor self path args post_args method)
           = (case post_args of
                None \<Rightarrow> None
              | Some p \<Rightarrow>
                  if p \<noteq> [] \<and> ''access_token'' \<notin> set (keys p)
                  then Some (p @ [(''access_token'', PStr tok)]) else Some p)
       \<and> http_params (request_descriptor self path args post_args method)
           = (let a = (case args of None \<Rightarrow> [] | Some a \<Rightarrow> a) in
              if (case post_args of None \<Rightarrow> False
                  | Some p \<Rightarrow> p \<noteq> [] \<and> ''access_token'' \<notin> set (keys p))
                 \<or> ''access_token'' \<in> set (keys a)
              then Some a else Some (a @ [(''access_token'', PStr tok)]))
       \<and> (\<forall>p v. post_args = Some p \<and> map_of p ''access_token'' = Some v
             \<longrightarrow> http_data (request_descriptor self path args post_args method) = Some p)
       \<and> (\<forall>a v. args = Some a \<and> map_of a ''access_token'' = Some v
             \<longrightarrow> http_params (request_descriptor self path args post_args method) = Some a)"
proof -
  have log: "snd (request net self path args post_args method sent)
           = sent @ [request_descriptor self path args post_args method]"
    by (simp add: request_def Let_def)
  have data: "http_data (request_descriptor self path args post_args method)
           = (case post_args of
                None \<Rightarrow> None
              | Some p \<Rightarrow>
                  if p \<noteq> [] \<and> ''access_token'' \<notin> set (keys p)
                  then Some (p @ [(''access_token'', PStr tok)]) else Some p)"
    using assms
    by (auto simp: request_descriptor_def inject_token_def has_token_def token_value_def
          update_absent Let_def split: option.splits)
  have params: "http_params (request_descriptor self path args post_args method)
           = (let a = (case args of None \<Rightarrow> [] | Some a \<Rightarrow> a) in
              if (case post_args of None \<Rightarrow> False
                  | Some p \<Rightarrow> p \<noteq> [] \<and> ''access_token'' \<notin> set (keys p))
                 \<or> ''access_token'' \<in> set (keys a)
              then Some a else Some (a @ [(''access_token'', PStr tok)]))"
    using assms
    by (auto simp: request_descriptor_def inject_token_def has_token_def token_value_def
          update_absent Let_def split: option.splits)
  have keep_data: "\<forall>p v. post_args = Some p \<and> map_of p ''access_token'' = Some v
             \<longrightarrow> http_data (request_descriptor self path args post_args method) = Some p"
    unfolding data by (auto simp: keys_def map_of_eq_None_iff)
  have keep_params: "\<forall>a v. args = Some a \<and> map_of a ''access_token'' = Some v
             \<longrightarrow> http_params (request_descriptor self path args post_args method) = Some a"
    unfolding params by (auto simp: Let_def keys_def map_of_eq_None_iff)
  show ?thesis using log data params keep_data keep_params by blast
qed

theorem request_token_injection_witness:
  "http_data (request_descriptor \<lparr> access_token = Some ''tok'', version = None, timeout = PNone \<rparr>
      ''me/feed'' None (Some [(''message'', PStr ''hi'')]) None)
     = Some [(''message'', PStr ''hi''), (''access_token'', PStr ''tok'')]
   \<and> http_params (request_descriptor \<lparr> access_token = Some ''tok'', version = None, timeout = PNone \<rparr>
      ''me/feed'' None (Some [(''message'', PStr ''hi'')]) None)
     = Some []
   \<and> http_params (request_descriptor \<lparr> access_token = Some ''tok'', version = None, timeout = PNone \<rparr>
      ''me'' (Some [(''fields'', PStr ''id'')]) None None)
     = Some [(''fields'', PStr ''id''), (''access_token'', PStr ''tok'')]
   \<and> http_params (request_descriptor \<lparr> access_token = Some ''tok'', version = None, timeout = PNone \<rparr>
      ''me'' (Some [(''access_token'', PStr ''other'')]) None None)
     = Some [(''access_token'', PStr ''other'')]"
proof -
  let ?self = "\<lparr> access_token = Some ''tok'', version = None, timeout = PNone \<rparr>"
  have t: "access_token ?self = Some ''tok''" by simp
  have n: "''tok'' \<noteq> []" by simp
  show ?thesis
    using request_token_injection [OF t n, of _ "''me/feed''" None
        "Some [(''message'', PStr ''hi'')]" None]
      request_token_injection [OF t n, of _ "''me''" "Some [(''fields'', PStr ''id'')]" None None]
      request_token_injection [OF t n, of _ "''me''" "Some [(''access_token'', PStr ''other'')]"
        None None]
    by (simp add: keys_def)
qed

text \<open>
  Claim C6 (a failed picture upload after a successful creation returns the created
  object beside an error message) against the code: the upload answered by a gateway with
  status 502 and a body that is not JSON makes \<^verbatim>\<open>picture_response.json()\<close> raise, and the
  exception leaves \<^verbatim>\<open>put_event\<close>; the created event is not returned.
\<close>

theorem put_event_picture_failure_raises:
  "put_event (\<lambda>v. [])
      (\<lambda>sent req. if http_url req = ''https://graph.facebook.com//me/events''
                   then Response \<lparr> status_code = 200, json = Some (PDict [(''id'', PStr ''42'')]) \<rparr>
                   else Response \<lparr> status_code = 502, json = None \<rparr>)
      \<lparr> access_token = Some ''tok'', version = None, timeout = PNone \<rparr> None None None
      [(''name'', PStr ''party''), (''picture'', PStr ''http://example.com/p.jpg'')] []
   = (Inl ValueError,
      [\<lparr> http_method = ''POST'', http_url = ''https://graph.facebook.com//me/events'',
          http_params = Some [],
          http_data = Some [(''name'', PStr ''party''),
                            (''picture'', PStr ''http://example.com/p.jpg''),
                            (''access_token'', PStr ''tok'')],
          http_timeout = PNone \<rparr>,
       \<lparr> http_method = ''POST'', http_url = ''https://graph.facebook.com//42/'',
          http_params = None,
          http_data = Some [(''cover_url'', PStr ''http://example.com/p.jpg''),
                            (''access_token'', PStr ''tok'')],
          http_timeout = PNone \<rparr>])"
  by (simp add: put_event_def upload_picture_def request_def request_descriptor_def
        inject_token_def has_token_def url_def host_def given_def keys_def token_value_def
        bind_def py_str_def)

end
